theory Spec2Isabelle
  imports Main "HOL-Library.AList" "HOL-Library.Multiset"
begin

section \<open>Decoded documents\<close>

text \<open>
  \<open>schema.validate\<close> decodes its input with \<open>json.Decoder\<close> after \<open>UseNumber()\<close>, so a
  document arrives as a Go \<open>interface{}\<close> holding \<open>nil\<close>, a \<open>bool\<close>, a \<open>json.Number\<close>
  (the literal's text), a \<open>string\<close>, a \<open>[]interface{}\<close> or a \<open>map[string]interface{}\<close>.
  The map is modelled as an association list; the list order stands for the order in which
  \<open>range\<close> visits the entries. A decoded map has pairwise different keys
  (\<open>distinct (map fst c)\<close>).
\<close>

datatype json =
    is_JNull: JNull
  | is_JBool: JBool bool
  | is_JNumber: JNumber string
  | is_JString: JString string
  | is_JArray: JArray "json list"
  | is_JObject: JObject "(string \<times> json) list"

section \<open>Schema definitions\<close>

type_synonym attributeType = string

definition attributeTypeBinary :: attributeType where "attributeTypeBinary = ''binary''"
definition attributeTypeBoolean :: attributeType where "attributeTypeBoolean = ''boolean''"
definition attributeTypeComplex :: attributeType where "attributeTypeComplex = ''complex''"
definition attributeTypeDateTime :: attributeType where "attributeTypeDateTime = ''dateTime''"
definition attributeTypeDecimal :: attributeType where "attributeTypeDecimal = ''decimal''"
definition attributeTypeInteger :: attributeType where "attributeTypeInteger = ''integer''"
definition attributeTypeReference :: attributeType where "attributeTypeReference = ''reference''"
definition attributeTypeString :: attributeType where "attributeTypeString = ''string''"

type_synonym attributeMutability = string

definition attributeMutabilityImmutable :: attributeMutability where
  "attributeMutabilityImmutable = ''immutable''"
definition attributeMutabilityReadOnly :: attributeMutability where
  "attributeMutabilityReadOnly = ''readOnly''"
definition attributeMutabilityReadWrite :: attributeMutability where
  "attributeMutabilityReadWrite = ''readWrite''"
definition attributeMutabilityWriteOnly :: attributeMutability where
  "attributeMutabilityWriteOnly = ''writeOnly''"

type_synonym attributeReturned = string

definition attributeReturnedAlways :: attributeReturned where "attributeReturnedAlways = ''always''"
definition attributeReturnedDefault :: attributeReturned where "attributeReturnedDefault = ''default''"
definition attributeReturnedNever :: attributeReturned where "attributeReturnedNever = ''never''"
definition attributeReturnedRequest :: attributeReturned where "attributeReturnedRequest = ''request''"

type_synonym attributeUniqueness = string

definition attributeUniquenessGlobal :: attributeUniqueness where "attributeUniquenessGlobal = ''global''"
definition attributeUniquenessNone :: attributeUniqueness where "attributeUniquenessNone = ''none''"
definition attributeUniquenessServer :: attributeUniqueness where "attributeUniquenessServer = ''server''"

text \<open>
  The struct \<open>attribute\<close> refers to itself through \<open>SubAttributes\<close>, so it is a datatype
  with one constructor and the struct's field names as selectors.
\<close>

datatype attribute = Attribute
  (Name: string)
  (Type: attributeType)
  (SubAttributes: "attribute list")
  (MultiValued: bool)
  (Description: string)
  (Required: bool)
  (CanonicalValues: "string list")
  (CaseExact: bool)
  (Mutability: attributeMutability)
  (Returned: attributeReturned)
  (Uniqueness: attributeUniqueness)
  (ReferenceTypes: "string list")

type_synonym attributes = "attribute list"

record schema =
  schema_ID :: string
  schema_Name :: string
  schema_Description :: string
  schema_Attributes :: attributes

text \<open>
  The constants \<open>read\<close>, \<open>write\<close> and \<open>replace\<close> of type \<open>validationMode\<close>
  (\<open>write\<close> is a keyword of the theory language, so the three are capitalised).
\<close>

datatype validationMode = Read | Write | Replace

section \<open>Results\<close>

text \<open>
  A \<open>CoreAttributes\<close> is a Go map from names to \<open>interface{}\<close>. The code stores two kinds
  of values in it: the input value itself (\<open>CoreAttributes{a.Name: i}\<close>) and, for a
  multi-valued attribute, a \<open>[]CoreAttributes\<close>.
\<close>

datatype cvalue =
    Single json
  | Multi "(string \<times> cvalue) list list"

type_synonym CoreAttributes = "(string \<times> cvalue) list"

text \<open>
  Every error of the validation is an \<open>fmt.Errorf\<close>; the constructor records which call
  made it, the formatted text is not modelled.
  \<^item> \<open>RequiredFieldMissing\<close>: "cannot find required value %s"
  \<^item> \<open>ArrayExpected\<close>: "cannot convert %v to a slice"
  \<^item> \<open>EmptyRequiredArray\<close>: "required array is empty"
  \<^item> \<open>ImmutableFieldModified\<close>: "immutable field: %s"
  \<^item> \<open>TypeMismatch\<close>: "cannot convert %v to type %s", "cannot convert %v to a json.Number",
    "%s is not an integer value", "cannot convert %v to type complex"
  \<^item> \<open>UnsupportedAttributeType\<close>: "not implemented/invalid type: %v"
  \<^item> \<open>DuplicateKey\<close>: "duplicate key: %s"
  \<^item> \<open>DecodeError\<close>: the error of \<open>json.Decoder.Decode\<close>
\<close>

datatype error =
    RequiredFieldMissing
  | ArrayExpected
  | EmptyRequiredArray
  | ImmutableFieldModified
  | TypeMismatch
  | UnsupportedAttributeType
  | DuplicateKey
  | DecodeError

text \<open>The Go functions return the pair \<open>(CoreAttributes, error)\<close>; \<open>None\<close> is \<open>nil\<close>.\<close>

type_synonym result = "CoreAttributes \<times> error option"

section \<open>Library functions of package strings\<close>

text \<open>
  \<open>strings.EqualFold\<close> reports whether two strings are equal under Unicode simple case
  folding: it walks the two strings rune by rune and accepts a pair of runes when one lies
  in the folding orbit of the other (\<open>unicode.SimpleFold\<close>). The orbits partition the
  runes, so two strings are equal under folding exactly when their folded forms (every rune
  replaced by the representative of its orbit) are the same. The orbits come from the
  Unicode tables of the Go library, which are not part of the repository: the function that
  yields the folded form is a parameter \<open>folded\<close> of the model, and every property below is
  proved for every \<open>folded\<close>.
\<close>

type_synonym caseFolding = "string \<Rightarrow> string"

definition EqualFold :: "caseFolding \<Rightarrow> string \<Rightarrow> string \<Rightarrow> bool" where
  "EqualFold folded s t = (folded s = folded t)"

primrec Contains :: "string \<Rightarrow> string \<Rightarrow> bool" where
  "Contains [] substr = (substr = [])"
| "Contains (ch # s) substr = (take (length substr) (ch # s) = substr \<or> Contains s substr)"

section \<open>Validation\<close>

text \<open>
  The inner loop of \<open>attributes.validate\<close>: \<open>found\<close> and \<open>hit\<close> are its two variables;
  \<open>Inl\<close> is the \<open>return\<close> out of the enclosing function on a second match.
\<close>

fun find_hit :: "caseFolding \<Rightarrow> string \<Rightarrow> (string \<times> json) list \<Rightarrow> bool \<Rightarrow> json
    \<Rightarrow> error + json" where
  "find_hit folded name [] found hit = Inr hit"
| "find_hit folded name ((k, v) # c) found hit =
     (if EqualFold folded name k
      then (if found then Inl DuplicateKey else find_hit folded name c True v)
      else find_hit folded name c found hit)"

text \<open>\<open>for k, v := range attribute { coreAttributes[k] = v }\<close>\<close>

definition merge :: "CoreAttributes \<Rightarrow> CoreAttributes \<Rightarrow> CoreAttributes" where
  "merge coreAttributes attribute = foldl (\<lambda>m (k, v). AList.update k v m) coreAttributes attribute"

text \<open>
  The three methods and their loops, which call each other:
  \<^item> \<open>attribute_validate\<close> is \<open>attribute.validate\<close>, and \<open>validate_elems\<close> its loop over
    the elements of the array, with the slice \<open>coreAttributes\<close> built so far;
  \<^item> \<open>attribute_validateSingular\<close> is \<open>attribute.validateSingular\<close>, and \<open>typeSwitch\<close>
    its \<open>switch a.Type\<close>, which yields the error that the switch returns with, or \<open>None\<close>
    when control leaves the switch;
  \<^item> \<open>attributes_validate\<close> is \<open>attributes.validate\<close>, and \<open>validate_loop\<close> its loop over
    the declared attributes, with the map \<open>coreAttributes\<close> built so far.
\<close>

function
  attribute_validate :: "caseFolding \<Rightarrow> attribute \<Rightarrow> json \<Rightarrow> validationMode \<Rightarrow> result" and
  validate_elems :: "caseFolding \<Rightarrow> attribute \<Rightarrow> json list \<Rightarrow> validationMode
                       \<Rightarrow> CoreAttributes list \<Rightarrow> error + CoreAttributes list" and
  attribute_validateSingular :: "caseFolding \<Rightarrow> attribute \<Rightarrow> json \<Rightarrow> validationMode
                       \<Rightarrow> result" and
  typeSwitch :: "caseFolding \<Rightarrow> attribute \<Rightarrow> json \<Rightarrow> validationMode \<Rightarrow> error option" and
  attributes_validate :: "caseFolding \<Rightarrow> attributes \<Rightarrow> json \<Rightarrow> validationMode \<Rightarrow> result" and
  validate_loop :: "caseFolding \<Rightarrow> attributes \<Rightarrow> (string \<times> json) list \<Rightarrow> validationMode
                       \<Rightarrow> CoreAttributes \<Rightarrow> result"
where
  "attribute_validate folded a i mode =
     (if i = JNull then
        (if Required a then ([], Some RequiredFieldMissing) else ([], None))
      else if MultiValued a then
        (case i of
           JArray arr \<Rightarrow>
             if length arr = 0 \<and> Required a then ([], Some EmptyRequiredArray)
             else (case validate_elems folded a arr mode [] of
                     Inl err \<Rightarrow> ([], Some err)
                   | Inr coreAttributes \<Rightarrow>
                       if mode \<noteq> Read then ([(Name a, Multi coreAttributes)], None)
                       else ([], None))
         | _ \<Rightarrow> ([], Some ArrayExpected))
      else attribute_validateSingular folded a i mode)"
| "validate_elems folded a [] mode coreAttributes = Inr coreAttributes"
| "validate_elems folded a (sub # arr) mode coreAttributes =
     (case attribute_validateSingular folded a sub mode of
        (attributes, None) \<Rightarrow> validate_elems folded a arr mode (coreAttributes @ [attributes])
      | (attributes, Some err) \<Rightarrow> Inl err)"
| "attribute_validateSingular folded a i mode =
     (if mode = Replace \<and> Mutability a = attributeMutabilityImmutable then
        ([], Some ImmutableFieldModified)
      else if mode = Replace \<and> Mutability a = attributeMutabilityReadOnly then
        ([], None)
      else
        (case typeSwitch folded a i mode of
           Some err \<Rightarrow> ([], Some err)
         | None \<Rightarrow>
             if mode \<noteq> Read \<and> (Returned a = attributeReturnedAlways
                                \<or> Returned a = attributeReturnedDefault)
             then ([(Name a, Single i)], None)
             else ([], None)))"
| "typeSwitch folded a i mode =
     (if Type a = attributeTypeBoolean then
        (case i of JBool b \<Rightarrow> None | _ \<Rightarrow> Some TypeMismatch)
      else if Type a = attributeTypeComplex then
        snd (attributes_validate folded (SubAttributes a) i mode)
      else if Type a = attributeTypeString \<or> Type a = attributeTypeReference then
        (case i of JString s \<Rightarrow> None | _ \<Rightarrow> Some TypeMismatch)
      else if Type a = attributeTypeInteger then
        (case i of
           JNumber n \<Rightarrow>
             if Contains n ''.'' \<or> Contains n ''e'' then Some TypeMismatch else None
         | _ \<Rightarrow> Some TypeMismatch)
      else Some UnsupportedAttributeType)"
| "attributes_validate folded as i mode =
     (case i of
        JObject c \<Rightarrow> validate_loop folded as c mode []
      | _ \<Rightarrow> ([], Some TypeMismatch))"
| "validate_loop folded [] c mode coreAttributes = (coreAttributes, None)"
| "validate_loop folded (a # as) c mode coreAttributes =
     (case find_hit folded (Name a) c False JNull of
        Inl err \<Rightarrow> ([], Some err)
      | Inr hit \<Rightarrow>
          (case attribute_validate folded a hit mode of
             (attribute, Some err) \<Rightarrow> ([], Some err)
           | (attribute, None) \<Rightarrow>
               validate_loop folded as c mode
                 (if mode \<noteq> Read then merge coreAttributes attribute else coreAttributes)))"
  by pat_completeness auto
termination
proof (relation "measures
   [case_sum
      (case_sum (\<lambda>(folded, a, i, mode). size a)
         (case_sum (\<lambda>(folded, a, arr, mode, acc). size a) (\<lambda>(folded, a, i, mode). size a)))
      (case_sum (\<lambda>(folded, a, i, mode). size a)
         (case_sum (\<lambda>(folded, as, i, mode). size_list size as)
            (\<lambda>(folded, as, c, mode, acc). size_list size as))),
    case_sum
      (case_sum (\<lambda>_. 3)
         (case_sum (\<lambda>_. 2) (\<lambda>_. 1)))
      (case_sum (\<lambda>_. 0)
         (case_sum (\<lambda>_. 1) (\<lambda>_. 0))),
    case_sum
      (case_sum (\<lambda>_. 0)
         (case_sum (\<lambda>(folded, a, arr, mode, acc). length arr) (\<lambda>_. 0)))
      (\<lambda>_. 0)]", goal_cases)
  case (7 folded a i mode)
  show ?case by (cases a) simp
qed simp_all

text \<open>
  \<open>schema.validate\<close>: \<open>m\<close> is what the decoder produced, \<open>None\<close> when \<open>Decode\<close> returned
  an error.
\<close>

definition schema_validate :: "caseFolding \<Rightarrow> schema \<Rightarrow> json option \<Rightarrow> validationMode
    \<Rightarrow> result" where
  "schema_validate folded s m mode =
     (case m of
        None \<Rightarrow> ([], Some DecodeError)
      | Some i \<Rightarrow> attributes_validate folded (schema_Attributes s) i mode)"

section \<open>Notions used by the properties\<close>

text \<open>
  The emission test of \<open>validateSingular\<close>:
  \<open>a.Returned == attributeReturnedAlways || a.Returned == attributeReturnedDefault\<close>.
\<close>

definition returnable :: "attribute \<Rightarrow> bool" where
  "returnable a = (Returned a = attributeReturnedAlways \<or> Returned a = attributeReturnedDefault)"

text \<open>
  The invariant of a schema: the names of one collection of attributes are pairwise
  different under \<open>strings.EqualFold\<close>, that is, their folded forms are pairwise different.
\<close>

definition unique_names :: "caseFolding \<Rightarrow> attributes \<Rightarrow> bool" where
  "unique_names folded as = distinct (map (\<lambda>a. folded (Name a)) as)"

text \<open>
  The re-serialisation of a result that the round-trip property speaks of: the result
  written out as a JSON object and decoded again as \<open>schema.validate\<close> decodes. A stored
  input value comes back as it was, a \<open>[]CoreAttributes\<close> comes back as an array of
  objects, the result itself as an object.
\<close>

fun reserialize_value :: "cvalue \<Rightarrow> json" where
  "reserialize_value (Single i) = i"
| "reserialize_value (Multi ms) =
     JArray (map (\<lambda>m. JObject (map (\<lambda>kv. (fst kv, reserialize_value (snd kv))) m)) ms)"

definition reserialize :: "CoreAttributes \<Rightarrow> json" where
  "reserialize m = JObject (map (\<lambda>kv. (fst kv, reserialize_value (snd kv))) m)"

text \<open>
  The values that \<open>attribute.validate\<close> hands to \<open>validateSingular\<close>: a present value of
  an attribute that is not multi-valued, and the elements of a non-empty array of a
  multi-valued attribute. \<open>reaches_validateSingular\<close> says that \<open>v\<close> is such a value or
  holds one; \<open>passes_type_check\<close> says that the type switch returns no error on it, or on
  each element.
\<close>

definition reaches_validateSingular :: "attribute \<Rightarrow> json \<Rightarrow> bool" where
  "reaches_validateSingular a v =
     (if MultiValued a then (case v of JArray (x # xs) \<Rightarrow> True | _ \<Rightarrow> False)
      else v \<noteq> JNull)"

definition passes_type_check :: "caseFolding \<Rightarrow> attribute \<Rightarrow> json \<Rightarrow> validationMode \<Rightarrow> bool" where
  "passes_type_check folded a v mode =
     (if MultiValued a then
        (case v of
           JArray arr \<Rightarrow> list_all (\<lambda>x. typeSwitch folded a x mode = None) arr
         | _ \<Rightarrow> False)
      else typeSwitch folded a v mode = None)"

subsection \<open>Inputs of the examples\<close>

text \<open>An attribute definition with the fields that no check reads left empty.\<close>

definition example_attribute :: "string \<Rightarrow> attributeType \<Rightarrow> attributes \<Rightarrow> bool \<Rightarrow> bool
    \<Rightarrow> attributeMutability \<Rightarrow> attributeReturned \<Rightarrow> attribute" where
  "example_attribute name type subAttributes multiValued required mutability returned =
     Attribute name type subAttributes multiValued [] required [] False mutability returned
       attributeUniquenessNone []"

text \<open>
  The folding of the ASCII letters. On strings of ASCII characters \<open>strings.EqualFold\<close>
  compares two strings exactly as the equality of these folded forms does (its fast path);
  the examples instantiate \<open>folded\<close> with it and use names and keys of ASCII characters only.
\<close>

definition toLower :: "char \<Rightarrow> char" where
  "toLower ch =
     (case map_of (zip ''ABCDEFGHIJKLMNOPQRSTUVWXYZ'' ''abcdefghijklmnopqrstuvwxyz'') ch of
        Some l \<Rightarrow> l
      | None \<Rightarrow> ch)"

definition asciiFolding :: caseFolding where
  "asciiFolding s = map toLower s"


section \<open>Basic facts\<close>

declare attribute_validate.simps [simp del]
declare attribute_validateSingular.simps [simp del]
declare typeSwitch.simps [simp del]
declare attributes_validate.simps [simp del]

lemmas attributeType_defs =
  attributeTypeBinary_def attributeTypeBoolean_def attributeTypeComplex_def
  attributeTypeDateTime_def attributeTypeDecimal_def attributeTypeInteger_def
  attributeTypeReference_def attributeTypeString_def

lemmas attributeMutability_defs =
  attributeMutabilityImmutable_def attributeMutabilityReadOnly_def
  attributeMutabilityReadWrite_def attributeMutabilityWriteOnly_def

lemmas attributeReturned_defs =
  attributeReturnedAlways_def attributeReturnedDefault_def
  attributeReturnedNever_def attributeReturnedRequest_def

lemmas evaluate =
  example_attribute_def attributeType_defs attributeMutability_defs attributeReturned_defs
  attributeUniquenessNone_def EqualFold_def asciiFolding_def toLower_def merge_def
  returnable_def
  attribute_validate.simps attribute_validateSingular.simps typeSwitch.simps
  attributes_validate.simps schema_validate_def

lemma Contains_single: "Contains s [ch] = (ch \<in> set s)"
  by (induction s) auto

lemma EqualFold_refl: "EqualFold folded s s"
  by (simp add: EqualFold_def)

lemma find_hit_filter:
  "find_hit folded name c found hit =
     (case filter (\<lambda>(k, v). EqualFold folded name k) c of
        [] \<Rightarrow> Inr hit
      | [(k, v)] \<Rightarrow> if found then Inl DuplicateKey else Inr v
      | _ \<Rightarrow> Inl DuplicateKey)"
  by (induction c arbitrary: found hit) (auto split: list.splits)

lemma merge_Nil: "merge coreAttributes [] = coreAttributes"
  by (simp add: merge_def)

lemma merge_single: "merge coreAttributes [(k, v)] = AList.update k v coreAttributes"
  by (simp add: merge_def)

lemma validate_loop_error:
  "validate_loop folded as c mode acc = (m, Some err) \<Longrightarrow> m = []"
  by (induction as arbitrary: acc) (auto split: sum.splits prod.splits option.splits)

lemma validate_loop_append:
  "validate_loop folded (pre @ post) c mode acc =
     (case validate_loop folded pre c mode acc of
        (acc', None) \<Rightarrow> validate_loop folded post c mode acc'
      | (m, Some err) \<Rightarrow> ([], Some err))"
  by (induction pre arbitrary: acc) (auto split: sum.splits prod.splits option.splits)

lemma validate_elems_append:
  "validate_elems folded a (xs @ ys) mode acc =
     (case validate_elems folded a xs mode acc of
        Inl err \<Rightarrow> Inl err
      | Inr acc' \<Rightarrow> validate_elems folded a ys mode acc')"
  by (induction xs arbitrary: acc) (auto split: prod.splits option.splits)

section \<open>Types that the type switch does not implement\<close>

text \<open>
  C10. For an attribute of type decimal, dateTime or binary, \<open>validateSingular\<close> returns the
  unsupported-type error for every value in every mode, except in replace mode for an
  immutable attribute (the immutable-field error) and a read-only attribute (success with
  the empty result): the mutability gate returns before the type switch. In every case the
  returned mapping is empty, so a value of these types is never emitted. The same holds for
  \<open>validate\<close> on a present value of an attribute that is not multi-valued.
\<close>

theorem unsupported_types:
  assumes "Type a = attributeTypeDecimal \<or> Type a = attributeTypeDateTime
             \<or> Type a = attributeTypeBinary"
  shows "attribute_validateSingular folded a i mode =
           (if mode = Replace \<and> Mutability a = attributeMutabilityImmutable
              then ([], Some ImmutableFieldModified)
            else if mode = Replace \<and> Mutability a = attributeMutabilityReadOnly
              then ([], None)
            else ([], Some UnsupportedAttributeType))
         \<and> (\<not> MultiValued a \<and> i \<noteq> JNull \<longrightarrow>
              attribute_validate folded a i mode = attribute_validateSingular folded a i mode)"
proof -
  have "typeSwitch folded a i mode = Some UnsupportedAttributeType"
    using assms by (auto simp: typeSwitch.simps attributeType_defs)
  then show ?thesis
    by (simp add: attribute_validateSingular.simps attribute_validate.simps)
qed

theorem unsupported_types_witness:
  "Type (example_attribute ''salary'' attributeTypeDecimal [] False False
        attributeMutabilityReadWrite attributeReturnedDefault) = attributeTypeDecimal
   \<and> attribute_validateSingular asciiFolding
     (example_attribute ''salary'' attributeTypeDecimal [] False False
        attributeMutabilityReadWrite attributeReturnedDefault)
     (JNumber ''1.5'') Write = ([], Some UnsupportedAttributeType)
   \<and> attribute_validate asciiFolding
     (example_attribute ''salary'' attributeTypeDecimal [] False False
        attributeMutabilityReadWrite attributeReturnedDefault)
     (JNumber ''1.5'') Write = ([], Some UnsupportedAttributeType)"
  using unsupported_types
    [where a = "example_attribute ''salary'' attributeTypeDecimal [] False False
        attributeMutabilityReadWrite attributeReturnedDefault"
       and i = "JNumber ''1.5''" and mode = Write and folded = asciiFolding]
  by (simp add: example_attribute_def)

section \<open>The mutability gate\<close>

lemma immutable_validateSingular:
  assumes "Mutability a = attributeMutabilityImmutable"
  shows "attribute_validateSingular folded a v Replace = ([], Some ImmutableFieldModified)"
  using assms by (simp add: attribute_validateSingular.simps)

lemma validateSingular_write:
  assumes "typeSwitch folded a v Write = None"
  shows "attribute_validateSingular folded a v Write =
           (if returnable a then [(Name a, Single v)] else [], None)"
  using assms by (simp add: attribute_validateSingular.simps returnable_def)

lemma validate_elems_write:
  assumes "list_all (\<lambda>x. typeSwitch folded a x Write = None) arr"
  shows "validate_elems folded a arr Write acc =
           Inr (acc @ map (\<lambda>x. if returnable a then [(Name a, Single x)] else []) arr)"
  using assms by (induction arr arbitrary: acc) (simp_all add: validateSingular_write)

text \<open>
  C6, as the code has it. Let the Mutability of an attribute be immutable and let \<open>v\<close> be
  a present value that reaches \<open>validateSingular\<close>: any present value when the attribute
  is not multi-valued, a non-empty array when it is. Then validating \<open>v\<close> in replace mode
  fails with the immutable-field error, whatever \<open>v\<close> is (no stored value is consulted),
  and validating the same \<open>v\<close> in write mode succeeds whenever \<open>v\<close> (each element of
  \<open>v\<close>, for a multi-valued attribute) passes the type switch.
\<close>

theorem immutable_replace_write:
  assumes "Mutability a = attributeMutabilityImmutable"
    and "reaches_validateSingular a v"
  shows "attribute_validate folded a v Replace = ([], Some ImmutableFieldModified)
         \<and> (passes_type_check folded a v Write \<longrightarrow>
              snd (attribute_validate folded a v Write) = None)"
proof (cases "MultiValued a")
  case False
  with assms(2) have present: "v \<noteq> JNull"
    by (simp add: reaches_validateSingular_def)
  with False have same: "attribute_validate folded a v mode = attribute_validateSingular folded a v mode"
    for mode
    by (simp add: attribute_validate.simps)
  show ?thesis
    using False immutable_validateSingular [OF assms(1)]
    by (simp add: same passes_type_check_def validateSingular_write)
next
  case True
  with assms(2) obtain x xs where v: "v = JArray (x # xs)"
    by (auto simp: reaches_validateSingular_def split: json.splits list.splits)
  have "attribute_validate folded a v Replace = ([], Some ImmutableFieldModified)"
    using True immutable_validateSingular [OF assms(1), of folded x]
    by (simp add: v attribute_validate.simps)
  moreover have "snd (attribute_validate folded a v Write) = None"
    if "passes_type_check folded a v Write"
  proof -
    from that True have "list_all (\<lambda>y. typeSwitch folded a y Write = None) (x # xs)"
      by (simp add: passes_type_check_def v)
    from validate_elems_write [OF this, of "[]"] True show ?thesis
      by (simp add: v attribute_validate.simps)
  qed
  ultimately show ?thesis
    by blast
qed

theorem immutable_replace_write_witness:
  "Mutability (example_attribute ''id'' attributeTypeString [] False True
        attributeMutabilityImmutable attributeReturnedAlways) = attributeMutabilityImmutable
   \<and> reaches_validateSingular (example_attribute ''id'' attributeTypeString [] False True
        attributeMutabilityImmutable attributeReturnedAlways) (JString ''0001'')
   \<and> passes_type_check asciiFolding (example_attribute ''id'' attributeTypeString [] False True
        attributeMutabilityImmutable attributeReturnedAlways) (JString ''0001'') Write
   \<and> attribute_validate asciiFolding (example_attribute ''id'' attributeTypeString [] False True
        attributeMutabilityImmutable attributeReturnedAlways) (JString ''0001'') Replace
       = ([], Some ImmutableFieldModified)
   \<and> snd (attribute_validate asciiFolding (example_attribute ''id'' attributeTypeString [] False
        True attributeMutabilityImmutable attributeReturnedAlways) (JString ''0001'') Write)
       = None
   \<and> Mutability (example_attribute ''groups'' attributeTypeString [] True False
        attributeMutabilityImmutable attributeReturnedDefault) = attributeMutabilityImmutable
   \<and> reaches_validateSingular (example_attribute ''groups'' attributeTypeString [] True False
        attributeMutabilityImmutable attributeReturnedDefault)
        (JArray [JString ''admins'', JString ''staff''])
   \<and> passes_type_check asciiFolding (example_attribute ''groups'' attributeTypeString [] True
        False attributeMutabilityImmutable attributeReturnedDefault)
        (JArray [JString ''admins'', JString ''staff'']) Write
   \<and> attribute_validate asciiFolding (example_attribute ''groups'' attributeTypeString [] True
        False attributeMutabilityImmutable attributeReturnedDefault)
        (JArray [JString ''admins'', JString ''staff'']) Replace
       = ([], Some ImmutableFieldModified)
   \<and> snd (attribute_validate asciiFolding (example_attribute ''groups'' attributeTypeString []
        True False attributeMutabilityImmutable attributeReturnedDefault)
        (JArray [JString ''admins'', JString ''staff'']) Write)
       = None"
proof -
  let ?id = "example_attribute ''id'' attributeTypeString [] False True
        attributeMutabilityImmutable attributeReturnedAlways"
  let ?groups = "example_attribute ''groups'' attributeTypeString [] True False
        attributeMutabilityImmutable attributeReturnedDefault"
  let ?arr = "JArray [JString ''admins'', JString ''staff'']"
  have id1: "Mutability ?id = attributeMutabilityImmutable"
    by (simp add: example_attribute_def)
  have id2: "reaches_validateSingular ?id (JString ''0001'')"
    by (simp add: reaches_validateSingular_def example_attribute_def)
  have id3: "passes_type_check asciiFolding ?id (JString ''0001'') Write"
    by (simp add: passes_type_check_def evaluate)
  have g1: "Mutability ?groups = attributeMutabilityImmutable"
    by (simp add: example_attribute_def)
  have g2: "reaches_validateSingular ?groups ?arr"
    by (simp add: reaches_validateSingular_def example_attribute_def)
  have g3: "passes_type_check asciiFolding ?groups ?arr Write"
    by (simp add: passes_type_check_def evaluate)
  show ?thesis
    using id1 id2 id3 g1 g2 g3
      immutable_replace_write [OF id1 id2, of asciiFolding]
      immutable_replace_write [OF g1 g2, of asciiFolding]
    by blast
qed

text \<open>
  C6, as it is written, fails for a multi-valued attribute. The empty array is a present
  value; for an optional immutable attribute it validates in replace mode and the
  attribute's name is emitted, no element having reached the gate. A value that is not an
  array fails with the array-expected error, not the immutable-field error.
\<close>

theorem immutable_multiValued_passes:
  "attribute_validate asciiFolding (example_attribute ''groups'' attributeTypeString [] True False
      attributeMutabilityImmutable attributeReturnedDefault) (JArray []) Replace
     = ([(''groups'', Multi [])], None)
   \<and> attribute_validate asciiFolding (example_attribute ''groups'' attributeTypeString [] True
      False attributeMutabilityImmutable attributeReturnedDefault) (JString ''admins'') Replace
     = ([], Some ArrayExpected)"
  by (simp add: evaluate)

section \<open>The integer check\<close>

lemma integer_typeSwitch:
  assumes "Type a = attributeTypeInteger"
  shows "typeSwitch folded a (JNumber n) mode =
           (if CHR ''.'' \<in> set n \<or> CHR ''e'' \<in> set n then Some TypeMismatch else None)"
  using assms by (simp add: typeSwitch.simps attributeType_defs Contains_single)

text \<open>
  C4. The type switch of an integer attribute looks for \<open>.\<close> and for the lower-case \<open>e\<close>
  only: the literals \<open>1\<close> and \<open>-42\<close> pass, \<open>1.5\<close> and \<open>1e2\<close> are a type mismatch, and
  \<open>1E2\<close>, whose exponent marker is the upper-case letter, passes and is emitted.
\<close>

theorem integer_upper_case_exponent:
  "typeSwitch folded (example_attribute ''age'' attributeTypeInteger [] False False
      attributeMutabilityReadWrite attributeReturnedDefault) (JNumber ''1'') Write = None
   \<and> typeSwitch folded (example_attribute ''age'' attributeTypeInteger [] False False
      attributeMutabilityReadWrite attributeReturnedDefault) (JNumber ''-42'') Write = None
   \<and> typeSwitch folded (example_attribute ''age'' attributeTypeInteger [] False False
      attributeMutabilityReadWrite attributeReturnedDefault) (JNumber ''1.5'') Write
       = Some TypeMismatch
   \<and> typeSwitch folded (example_attribute ''age'' attributeTypeInteger [] False False
      attributeMutabilityReadWrite attributeReturnedDefault) (JNumber ''1e2'') Write
       = Some TypeMismatch
   \<and> typeSwitch folded (example_attribute ''age'' attributeTypeInteger [] False False
      attributeMutabilityReadWrite attributeReturnedDefault) (JNumber ''1E2'') Write = None
   \<and> attribute_validate folded (example_attribute ''age'' attributeTypeInteger [] False False
      attributeMutabilityReadWrite attributeReturnedDefault) (JNumber ''1E2'') Write
       = ([(''age'', Single (JNumber ''1E2''))], None)"
  by (simp add: evaluate)

section \<open>Multi-valued attributes\<close>

lemma multiValued_empty_array:
  assumes "MultiValued a"
  shows "attribute_validate folded a (JArray []) mode =
           (if Required a then ([], Some EmptyRequiredArray)
            else if mode \<noteq> Read then ([(Name a, Multi [])], None)
            else ([], None))"
  using assms by (simp add: attribute_validate.simps)

text \<open>
  C5. A multi-valued attribute given the empty array: when the attribute is Required the
  call fails with the empty-required-array error; when it is not Required the call
  succeeds, and in write mode the returned mapping holds the attribute's name with the
  empty sequence as its value.
\<close>

theorem optional_empty_array_emits_key:
  "attribute_validate folded (example_attribute ''emails'' attributeTypeString [] True True
      attributeMutabilityReadWrite attributeReturnedDefault) (JArray []) Write
     = ([], Some EmptyRequiredArray)
   \<and> attribute_validate folded (example_attribute ''emails'' attributeTypeString [] True False
      attributeMutabilityReadWrite attributeReturnedDefault) (JArray []) Write
     = ([(''emails'', Multi [])], None)
   \<and> schema_validate folded
       \<lparr>schema_ID = ''urn:example'', schema_Name = [], schema_Description = [],
        schema_Attributes = [example_attribute ''emails'' attributeTypeString [] True False
          attributeMutabilityReadWrite attributeReturnedDefault]\<rparr>
       (Some (JObject [(''emails'', JArray [])])) Write
     = ([(''emails'', Multi [])], None)"
  by (simp add: evaluate)

lemma never_singular_no_key:
  assumes "Returned a = attributeReturnedNever"
  shows "fst (attribute_validateSingular folded a i mode) = []"
  using assms
  by (simp add: attribute_validateSingular.simps attributeReturned_defs split: option.splits)

lemma never_not_multiValued_no_key:
  assumes "Returned a = attributeReturnedNever" and "\<not> MultiValued a"
  shows "fst (attribute_validate folded a i mode) = []"
  using assms never_singular_no_key [of a folded i mode]
  by (simp add: attribute_validate.simps)

lemma multiValued_emits_key:
  assumes "MultiValued a" and "mode \<noteq> Read"
    and "attribute_validate folded a (JArray arr) mode = (m, None)"
  shows "\<exists>ms. m = [(Name a, Multi ms)]"
  using assms
  by (auto simp: attribute_validate.simps split: if_splits sum.splits)

text \<open>
  C1. An attribute whose Returned is never, multi-valued, given a non-empty array in write
  mode: each element is validated by \<open>validateSingular\<close>, which emits nothing for it, and
  the multi-valued branch of \<open>validate\<close> then stores the sequence of these empty results
  under the attribute's name without looking at Returned. The key is in the mapping that
  \<open>schema.validate\<close> returns.
\<close>

theorem never_multiValued_emits_key:
  "attribute_validateSingular folded (example_attribute ''secrets'' attributeTypeString [] True False
      attributeMutabilityReadWrite attributeReturnedNever) (JString ''x'') Write = ([], None)
   \<and> attribute_validate folded (example_attribute ''secrets'' attributeTypeString [] True False
      attributeMutabilityReadWrite attributeReturnedNever) (JArray [JString ''x'']) Write
     = ([(''secrets'', Multi [[]])], None)
   \<and> schema_validate folded
       \<lparr>schema_ID = ''urn:example'', schema_Name = [], schema_Description = [],
        schema_Attributes = [example_attribute ''secrets'' attributeTypeString [] True False
          attributeMutabilityReadWrite attributeReturnedNever]\<rparr>
       (Some (JObject [(''secrets'', JArray [JString ''x''])])) Write
     = ([(''secrets'', Multi [[]])], None)"
  by (simp add: evaluate)

section \<open>Matching the keys of the input object\<close>

text \<open>
  The order in which \<open>range\<close> visits the entries of the input object does not change the
  result: no match leaves \<open>hit\<close> nil, one match sets it, two matches are the error.
\<close>

lemma find_hit_order:
  assumes "mset c = mset c'"
  shows "find_hit folded name c found hit = find_hit folded name c' found hit"
proof -
  let ?f = "\<lambda>c. filter (\<lambda>(k, v). EqualFold folded name k) c"
  have same: "mset (?f c) = mset (?f c')"
    using assms by simp
  then have len: "length (?f c) = length (?f c')"
    by (rule mset_eq_length)
  show ?thesis
  proof (cases "?f c")
    case Nil
    with len show ?thesis
      by (simp add: find_hit_filter)
  next
    case (Cons m ms)
    note outer = Cons
    show ?thesis
    proof (cases ms)
      case Nil
      with outer len obtain m' where m': "?f c' = [m']"
        by (cases "?f c'") auto
      with same outer Nil have "m' = m"
        by simp
      with m' outer Nil show ?thesis
        by (simp add: find_hit_filter)
    next
      case (Cons m2 ms2)
      with outer len obtain m' m2' ms2' where "?f c' = m' # m2' # ms2'"
        by (cases "?f c'"; cases "tl (?f c')") auto
      with outer Cons show ?thesis
        by (simp add: find_hit_filter split: prod.splits)
    qed
  qed
qed

lemma validate_loop_order:
  assumes "mset c = mset c'"
  shows "validate_loop folded as c mode acc = validate_loop folded as c' mode acc"
  by (induction as arbitrary: acc)
     (simp_all add: find_hit_order [OF assms] split: sum.splits prod.splits option.splits)

lemma attributes_validate_order:
  assumes "mset c = mset c'"
  shows "attributes_validate folded as (JObject c) mode = attributes_validate folded as (JObject c') mode"
  by (simp add: attributes_validate.simps validate_loop_order [OF assms])

lemma find_hit_no_match:
  assumes "\<forall>k \<in> fst ` set c. \<not> EqualFold folded name k"
  shows "find_hit folded name c False JNull = Inr JNull"
proof -
  have "filter (\<lambda>(k, v). EqualFold folded name k) c = []"
    using assms by (auto simp: filter_empty_conv)
  then show ?thesis
    by (simp add: find_hit_filter)
qed

lemma find_hit_two_matches:
  assumes "(k1, v1) \<in> set c" and "(k2, v2) \<in> set c" and "k1 \<noteq> k2"
    and "EqualFold folded name k1" and "EqualFold folded name k2"
  shows "find_hit folded name c found hit = Inl DuplicateKey"
proof -
  let ?ms = "filter (\<lambda>(k, v). EqualFold folded name k) c"
  have in1: "(k1, v1) \<in> set ?ms" and in2: "(k2, v2) \<in> set ?ms"
    using assms by auto
  show ?thesis
  proof (cases ?ms)
    case Nil
    with in1 show ?thesis by simp
  next
    case (Cons m ms)
    note outer = Cons
    show ?thesis
    proof (cases ms)
      case Nil
      with outer in1 in2 assms(3) show ?thesis by auto
    next
      case (Cons m' ms')
      with outer show ?thesis
        by (simp add: find_hit_filter split: prod.splits)
    qed
  qed
qed

text \<open>
  C7. Let the attributes before \<open>a\<close> validate without error, leaving \<open>acc\<close> collected, and
  let no key of the input object match the Name of \<open>a\<close> under \<open>strings.EqualFold\<close>
  (whatever the folding tables are). Then in every
  mode the inner loop leaves \<open>hit\<close> nil; if \<open>a\<close> is Required the whole call returns the
  required-field-missing error; if it is not, \<open>a\<close> adds no key and the call goes on with
  the following attributes from the same \<open>acc\<close>.
\<close>

theorem absent_attribute:
  assumes "\<not> (\<exists>k \<in> fst ` set c. EqualFold folded (Name a) k)"
    and "validate_loop folded pre c mode [] = (acc, None)"
  shows "attributes_validate folded (pre @ a # post) (JObject c) mode =
           (if Required a then ([], Some RequiredFieldMissing)
            else validate_loop folded post c mode acc)"
proof -
  have hit: "find_hit folded (Name a) c False JNull = Inr JNull"
    using assms(1) by (intro find_hit_no_match) blast
  have one: "attribute_validate folded a JNull mode =
               (if Required a then ([], Some RequiredFieldMissing) else ([], None))"
    by (simp add: attribute_validate.simps)
  show ?thesis
    using assms(2) hit one
    by (simp add: attributes_validate.simps validate_loop_append merge_Nil)
qed

theorem absent_attribute_witness:
  "\<not> (\<exists>k \<in> fst ` set [(''id'', JString ''0001'')].
       EqualFold asciiFolding
         (Name (example_attribute ''userName'' attributeTypeString [] False True
            attributeMutabilityReadWrite attributeReturnedDefault)) k)
   \<and> validate_loop asciiFolding
        [example_attribute ''id'' attributeTypeString [] False False
           attributeMutabilityReadWrite attributeReturnedDefault]
        [(''id'', JString ''0001'')] Write [] = ([(''id'', Single (JString ''0001''))], None)
   \<and> attributes_validate asciiFolding
        ([example_attribute ''id'' attributeTypeString [] False False
            attributeMutabilityReadWrite attributeReturnedDefault]
         @ example_attribute ''userName'' attributeTypeString [] False True
            attributeMutabilityReadWrite attributeReturnedDefault # [])
        (JObject [(''id'', JString ''0001'')]) Write = ([], Some RequiredFieldMissing)"
proof -
  have nomatch: "\<not> (\<exists>k \<in> fst ` set [(''id'', JString ''0001'')].
       EqualFold asciiFolding
         (Name (example_attribute ''userName'' attributeTypeString [] False True
            attributeMutabilityReadWrite attributeReturnedDefault)) k)"
    by (simp add: evaluate)
  have before: "validate_loop asciiFolding
        [example_attribute ''id'' attributeTypeString [] False False
           attributeMutabilityReadWrite attributeReturnedDefault]
        [(''id'', JString ''0001'')] Write [] = ([(''id'', Single (JString ''0001''))], None)"
    by (simp add: evaluate)
  show ?thesis
    using nomatch before absent_attribute [OF nomatch before, of "[]"]
    by (simp add: example_attribute_def)
qed

text \<open>
  C8. Let the attributes before \<open>a\<close> validate without error, and let the input object hold
  two different keys that both match the Name of \<open>a\<close> under \<open>strings.EqualFold\<close>
  (whatever the folding tables are). Then, whatever
  the two values are and in every mode, the whole call returns the duplicate-key error and
  the empty mapping.
\<close>

theorem duplicate_key:
  assumes "(k1, v1) \<in> set c" and "(k2, v2) \<in> set c" and "k1 \<noteq> k2"
    and "EqualFold folded (Name a) k1" and "EqualFold folded (Name a) k2"
    and "validate_loop folded pre c mode [] = (acc, None)"
  shows "attributes_validate folded (pre @ a # post) (JObject c) mode = ([], Some DuplicateKey)"
proof -
  have "find_hit folded (Name a) c False JNull = Inl DuplicateKey"
    using assms(1-5) by (rule find_hit_two_matches)
  with assms(6) show ?thesis
    by (simp add: attributes_validate.simps validate_loop_append)
qed

theorem duplicate_key_witness:
  "(''userName'', JString ''alice'') \<in> set [(''userName'', JString ''alice''), (''USERNAME'', JBool True)]
   \<and> (''USERNAME'', JBool True) \<in> set [(''userName'', JString ''alice''), (''USERNAME'', JBool True)]
   \<and> ''userName'' \<noteq> ''USERNAME''
   \<and> EqualFold asciiFolding
         (Name (example_attribute ''userName'' attributeTypeString [] False True
            attributeMutabilityReadWrite attributeReturnedDefault)) ''userName''
   \<and> EqualFold asciiFolding
         (Name (example_attribute ''userName'' attributeTypeString [] False True
            attributeMutabilityReadWrite attributeReturnedDefault)) ''USERNAME''
   \<and> attributes_validate asciiFolding
        ([] @ example_attribute ''userName'' attributeTypeString [] False True
            attributeMutabilityReadWrite attributeReturnedDefault # [])
        (JObject [(''userName'', JString ''alice''), (''USERNAME'', JBool True)]) Write
       = ([], Some DuplicateKey)"
proof -
  let ?a = "example_attribute ''userName'' attributeTypeString [] False True
            attributeMutabilityReadWrite attributeReturnedDefault"
  let ?c = "[(''userName'', JString ''alice''), (''USERNAME'', JBool True)]"
  have 1: "(''userName'', JString ''alice'') \<in> set ?c" by simp
  have 2: "(''USERNAME'', JBool True) \<in> set ?c" by simp
  have 3: "''userName'' \<noteq> ''USERNAME''" by simp
  have 4: "EqualFold asciiFolding (Name ?a) ''userName''" by (simp add: evaluate)
  have 5: "EqualFold asciiFolding (Name ?a) ''USERNAME''" by (simp add: evaluate)
  have 6: "validate_loop asciiFolding [] ?c Write [] = ([], None)" by simp
  show ?thesis
    using 1 2 3 4 5 duplicate_key [OF 1 2 3 4 5 6, of "[]"] by simp
qed

section \<open>Errors abort the whole call\<close>

lemma validateSingular_error:
  "attribute_validateSingular folded a i mode = (m, Some err) \<Longrightarrow> m = []"
  by (auto simp: attribute_validateSingular.simps split: if_splits option.splits)

lemma validate_error:
  "attribute_validate folded a i mode = (m, Some err) \<Longrightarrow> m = []"
  by (auto simp: attribute_validate.simps
           split: if_splits json.splits sum.splits dest: validateSingular_error)

lemma attributes_validate_error:
  "attributes_validate folded as i mode = (m, Some err) \<Longrightarrow> m = []"
  by (auto simp: attributes_validate.simps split: json.splits dest: validate_loop_error)

lemma schema_validate_error:
  "schema_validate folded s doc mode = (m, Some err) \<Longrightarrow> m = []"
  by (auto simp: schema_validate_def split: option.splits dest: attributes_validate_error)

lemma result_cases:
  assumes "\<And>m err. r = (m, Some err) \<Longrightarrow> m = []"
  shows "(\<exists>m. r = (m, None)) \<or> (\<exists>err. r = ([], Some err))"
proof (cases r)
  case (Pair m e)
  with assms show ?thesis by (cases e) auto
qed

lemma result_error:
  assumes "\<And>m err. r = (m, Some err) \<Longrightarrow> m = []" and "snd r = Some err"
  shows "r = ([], Some err)"
  using assms by (cases r) auto

lemma schema_error_aborts:
  assumes "snd (attributes_validate folded (schema_Attributes s) i mode) = Some err"
  shows "schema_validate folded s (Some i) mode = ([], Some err)"
proof -
  have "attributes_validate folded (schema_Attributes s) i mode = ([], Some err)"
    using attributes_validate_error assms by (rule result_error)
  then show ?thesis
    by (simp add: schema_validate_def)
qed

lemma attribute_error_aborts:
  assumes "validate_loop folded pre c mode [] = (acc, None)"
    and "find_hit folded (Name a) c False JNull = Inl err
         \<or> (\<exists>hit. find_hit folded (Name a) c False JNull = Inr hit
                   \<and> snd (attribute_validate folded a hit mode) = Some err)"
  shows "attributes_validate folded (pre @ a # post) (JObject c) mode = ([], Some err)"
  using assms
  by (auto simp: attributes_validate.simps validate_loop_append split: prod.splits)

lemma singular_error_aborts:
  assumes "\<not> MultiValued a" and "i \<noteq> JNull"
    and "snd (attribute_validateSingular folded a i mode) = Some err"
  shows "attribute_validate folded a i mode = ([], Some err)"
proof -
  have "attribute_validateSingular folded a i mode = ([], Some err)"
    using validateSingular_error assms(3) by (rule result_error)
  with assms(1,2) show ?thesis
    by (simp add: attribute_validate.simps)
qed

lemma element_error_aborts:
  assumes "MultiValued a"
    and "validate_elems folded a xs mode [] = Inr acc"
    and "snd (attribute_validateSingular folded a x mode) = Some err"
  shows "attribute_validate folded a (JArray (xs @ x # ys)) mode = ([], Some err)"
  using assms
  by (cases "attribute_validateSingular folded a x mode")
     (simp add: attribute_validate.simps validate_elems_append)

lemma typeSwitch_error_aborts:
  assumes "typeSwitch folded a i mode = Some err"
    and "\<not> (mode = Replace \<and> (Mutability a = attributeMutabilityImmutable
                                \<or> Mutability a = attributeMutabilityReadOnly))"
  shows "attribute_validateSingular folded a i mode = ([], Some err)"
  using assms by (auto simp: attribute_validateSingular.simps)

lemma nested_error_aborts:
  assumes "Type a = attributeTypeComplex"
  shows "typeSwitch folded a i mode = snd (attributes_validate folded (SubAttributes a) i mode)"
  using assms by (simp add: typeSwitch.simps attributeType_defs)

text \<open>
  C9. Each of \<open>schema.validate\<close>, \<open>attributes.validate\<close>, \<open>attribute.validate\<close> and
  \<open>validateSingular\<close> returns either a mapping with no error, or an error with the empty
  mapping. An error stops the descent where it arises and is handed up unchanged through
  every enclosing call, so that it is what the entry point returns:
  \<^item> a decoding error, and an error of \<open>attributes.validate\<close> on the decoded document, is
    the result of \<open>schema.validate\<close>;
  \<^item> when the attributes before \<open>b\<close> validated and left \<open>acc\<close> collected, and \<open>b\<close> fails
    (a duplicate key, or an error of \<open>attribute.validate\<close> on its value),
    \<open>attributes.validate\<close> returns that error with the empty mapping, \<open>acc\<close> being dropped
    and the following attributes not visited;
  \<^item> an error of \<open>validateSingular\<close> on a present value of an attribute that is not
    multi-valued, and on the first failing element of an array of a multi-valued one, is the
    result of \<open>attribute.validate\<close>;
  \<^item> an error of the type switch is the result of \<open>validateSingular\<close>, unless the
    mutability gate of replace mode returned before the switch; and the type switch of a
    complex attribute yields the error of \<open>attributes.validate\<close> on the sub-attributes.
\<close>

theorem first_error_no_partial_result:
  "((\<exists>m. schema_validate folded s doc mode = (m, None))
      \<or> (\<exists>err. schema_validate folded s doc mode = ([], Some err)))
   \<and> ((\<exists>m. attributes_validate folded as i mode = (m, None))
      \<or> (\<exists>err. attributes_validate folded as i mode = ([], Some err)))
   \<and> ((\<exists>m. attribute_validate folded a i mode = (m, None))
      \<or> (\<exists>err. attribute_validate folded a i mode = ([], Some err)))
   \<and> ((\<exists>m. attribute_validateSingular folded a i mode = (m, None))
      \<or> (\<exists>err. attribute_validateSingular folded a i mode = ([], Some err)))
   \<and> schema_validate folded s None mode = ([], Some DecodeError)
   \<and> (snd (attributes_validate folded (schema_Attributes s) root mode) = Some erra
       \<longrightarrow> schema_validate folded s (Some root) mode = ([], Some erra))
   \<and> (validate_loop folded pre c mode [] = (acc, None)
        \<and> (find_hit folded (Name b) c False JNull = Inl errb
             \<or> (\<exists>hit. find_hit folded (Name b) c False JNull = Inr hit
                       \<and> snd (attribute_validate folded b hit mode) = Some errb))
       \<longrightarrow> attributes_validate folded (pre @ b # post) (JObject c) mode = ([], Some errb))
   \<and> (\<not> MultiValued e \<and> y \<noteq> JNull
        \<and> snd (attribute_validateSingular folded e y mode) = Some erre
       \<longrightarrow> attribute_validate folded e y mode = ([], Some erre))
   \<and> (MultiValued d \<and> validate_elems folded d xs mode [] = Inr ms
        \<and> snd (attribute_validateSingular folded d x mode) = Some errd
       \<longrightarrow> attribute_validate folded d (JArray (xs @ x # ys)) mode = ([], Some errd))
   \<and> (typeSwitch folded g j mode = Some errg
        \<and> \<not> (mode = Replace \<and> (Mutability g = attributeMutabilityImmutable
                                    \<or> Mutability g = attributeMutabilityReadOnly))
       \<longrightarrow> attribute_validateSingular folded g j mode = ([], Some errg))
   \<and> (Type h = attributeTypeComplex
       \<longrightarrow> typeSwitch folded h z mode
             = snd (attributes_validate folded (SubAttributes h) z mode))"
proof (intro conjI impI)
  show "(\<exists>m. schema_validate folded s doc mode = (m, None))
      \<or> (\<exists>err. schema_validate folded s doc mode = ([], Some err))"
    by (rule result_cases) (rule schema_validate_error)
  show "(\<exists>m. attributes_validate folded as i mode = (m, None))
      \<or> (\<exists>err. attributes_validate folded as i mode = ([], Some err))"
    by (rule result_cases) (rule attributes_validate_error)
  show "(\<exists>m. attribute_validate folded a i mode = (m, None))
      \<or> (\<exists>err. attribute_validate folded a i mode = ([], Some err))"
    by (rule result_cases) (rule validate_error)
  show "(\<exists>m. attribute_validateSingular folded a i mode = (m, None))
      \<or> (\<exists>err. attribute_validateSingular folded a i mode = ([], Some err))"
    by (rule result_cases) (rule validateSingular_error)
  show "schema_validate folded s None mode = ([], Some DecodeError)"
    by (simp add: schema_validate_def)
next
  assume "snd (attributes_validate folded (schema_Attributes s) root mode) = Some erra"
  then show "schema_validate folded s (Some root) mode = ([], Some erra)"
    by (rule schema_error_aborts)
next
  assume "validate_loop folded pre c mode [] = (acc, None)
        \<and> (find_hit folded (Name b) c False JNull = Inl errb
             \<or> (\<exists>hit. find_hit folded (Name b) c False JNull = Inr hit
                       \<and> snd (attribute_validate folded b hit mode) = Some errb))"
  then show "attributes_validate folded (pre @ b # post) (JObject c) mode = ([], Some errb)"
    by (intro attribute_error_aborts) blast+
next
  assume "\<not> MultiValued e \<and> y \<noteq> JNull
        \<and> snd (attribute_validateSingular folded e y mode) = Some erre"
  then show "attribute_validate folded e y mode = ([], Some erre)"
    by (intro singular_error_aborts) blast+
next
  assume "MultiValued d \<and> validate_elems folded d xs mode [] = Inr ms
        \<and> snd (attribute_validateSingular folded d x mode) = Some errd"
  then show "attribute_validate folded d (JArray (xs @ x # ys)) mode = ([], Some errd)"
    by (intro element_error_aborts [where acc = ms]) blast+
next
  assume "typeSwitch folded g j mode = Some errg
        \<and> \<not> (mode = Replace \<and> (Mutability g = attributeMutabilityImmutable
                                    \<or> Mutability g = attributeMutabilityReadOnly))"
  then show "attribute_validateSingular folded g j mode = ([], Some errg)"
    by (intro typeSwitch_error_aborts) blast+
next
  assume "Type h = attributeTypeComplex"
  then show "typeSwitch folded h z mode
               = snd (attributes_validate folded (SubAttributes h) z mode)"
    by (rule nested_error_aborts)
qed

theorem first_error_no_partial_result_witness:
  "validate_loop asciiFolding
      [example_attribute ''id'' attributeTypeString [] False False
         attributeMutabilityReadWrite attributeReturnedDefault]
      [(''id'', JString ''0001''), (''name'', JObject [])] Write []
     = ([(''id'', Single (JString ''0001''))], None)
   \<and> find_hit asciiFolding ''name'' [(''id'', JString ''0001''), (''name'', JObject [])]
        False JNull
     = Inr (JObject [])
   \<and> attributes_validate asciiFolding
        [example_attribute ''familyName'' attributeTypeString [] False True
           attributeMutabilityReadWrite attributeReturnedDefault]
        (JObject []) Write
     = ([], Some RequiredFieldMissing)
   \<and> typeSwitch asciiFolding
        (example_attribute ''name'' attributeTypeComplex
           [example_attribute ''familyName'' attributeTypeString [] False True
              attributeMutabilityReadWrite attributeReturnedDefault] False False
           attributeMutabilityReadWrite attributeReturnedDefault)
        (JObject []) Write
     = Some RequiredFieldMissing
   \<and> attribute_validateSingular asciiFolding
        (example_attribute ''name'' attributeTypeComplex
           [example_attribute ''familyName'' attributeTypeString [] False True
              attributeMutabilityReadWrite attributeReturnedDefault] False False
           attributeMutabilityReadWrite attributeReturnedDefault)
        (JObject []) Write
     = ([], Some RequiredFieldMissing)
   \<and> attribute_validate asciiFolding
        (example_attribute ''name'' attributeTypeComplex
           [example_attribute ''familyName'' attributeTypeString [] False True
              attributeMutabilityReadWrite attributeReturnedDefault] False False
           attributeMutabilityReadWrite attributeReturnedDefault)
        (JObject []) Write
     = ([], Some RequiredFieldMissing)
   \<and> attributes_validate asciiFolding
        ([example_attribute ''id'' attributeTypeString [] False False
            attributeMutabilityReadWrite attributeReturnedDefault]
         @ example_attribute ''name'' attributeTypeComplex
             [example_attribute ''familyName'' attributeTypeString [] False True
                attributeMutabilityReadWrite attributeReturnedDefault] False False
             attributeMutabilityReadWrite attributeReturnedDefault
         # [example_attribute ''active'' attributeTypeBoolean [] False True
             attributeMutabilityReadWrite attributeReturnedDefault])
        (JObject [(''id'', JString ''0001''), (''name'', JObject [])]) Write
     = ([], Some RequiredFieldMissing)
   \<and> schema_validate asciiFolding
        \<lparr>schema_ID = ''urn:example'', schema_Name = [], schema_Description = [],
         schema_Attributes =
           [example_attribute ''id'' attributeTypeString [] False False
              attributeMutabilityReadWrite attributeReturnedDefault]
           @ example_attribute ''name'' attributeTypeComplex
               [example_attribute ''familyName'' attributeTypeString [] False True
                  attributeMutabilityReadWrite attributeReturnedDefault] False False
               attributeMutabilityReadWrite attributeReturnedDefault
           # [example_attribute ''active'' attributeTypeBoolean [] False True
               attributeMutabilityReadWrite attributeReturnedDefault]\<rparr>
        (Some (JObject [(''id'', JString ''0001''), (''name'', JObject [])])) Write
     = ([], Some RequiredFieldMissing)
   \<and> schema_validate asciiFolding
        \<lparr>schema_ID = ''urn:example'', schema_Name = [], schema_Description = [],
         schema_Attributes =
           [example_attribute ''id'' attributeTypeString [] False False
              attributeMutabilityReadWrite attributeReturnedDefault]
           @ example_attribute ''name'' attributeTypeComplex
               [example_attribute ''familyName'' attributeTypeString [] False True
                  attributeMutabilityReadWrite attributeReturnedDefault] False False
               attributeMutabilityReadWrite attributeReturnedDefault
           # [example_attribute ''active'' attributeTypeBoolean [] False True
               attributeMutabilityReadWrite attributeReturnedDefault]\<rparr>
        None Write
     = ([], Some DecodeError)
   \<and> validate_elems asciiFolding
        (example_attribute ''emails'' attributeTypeString [] True False
           attributeMutabilityReadWrite attributeReturnedDefault)
        [JString ''a@example.com''] Write []
     = Inr [[(''emails'', Single (JString ''a@example.com''))]]
   \<and> attribute_validateSingular asciiFolding
        (example_attribute ''emails'' attributeTypeString [] True False
           attributeMutabilityReadWrite attributeReturnedDefault)
        (JNumber ''7'') Write
     = ([], Some TypeMismatch)
   \<and> attribute_validate asciiFolding
        (example_attribute ''emails'' attributeTypeString [] True False
           attributeMutabilityReadWrite attributeReturnedDefault)
        (JArray ([JString ''a@example.com''] @ JNumber ''7'' # [JString ''b@example.com''])) Write
     = ([], Some TypeMismatch)"
  using first_error_no_partial_result
    [where folded = asciiFolding and mode = Write
       and s = "\<lparr>schema_ID = ''urn:example'', schema_Name = [], schema_Description = [],
         schema_Attributes =
           [example_attribute ''id'' attributeTypeString [] False False
              attributeMutabilityReadWrite attributeReturnedDefault]
           @ example_attribute ''name'' attributeTypeComplex
               [example_attribute ''familyName'' attributeTypeString [] False True
                  attributeMutabilityReadWrite attributeReturnedDefault] False False
               attributeMutabilityReadWrite attributeReturnedDefault
           # [example_attribute ''active'' attributeTypeBoolean [] False True
               attributeMutabilityReadWrite attributeReturnedDefault]\<rparr>"
       and root = "JObject [(''id'', JString ''0001''), (''name'', JObject [])]"
       and erra = RequiredFieldMissing
       and pre = "[example_attribute ''id'' attributeTypeString [] False False
                     attributeMutabilityReadWrite attributeReturnedDefault]"
       and c = "[(''id'', JString ''0001''), (''name'', JObject [])]"
       and acc = "[(''id'', Single (JString ''0001''))]"
       and b = "example_attribute ''name'' attributeTypeComplex
                  [example_attribute ''familyName'' attributeTypeString [] False True
                     attributeMutabilityReadWrite attributeReturnedDefault] False False
                  attributeMutabilityReadWrite attributeReturnedDefault"
       and errb = RequiredFieldMissing
       and post = "[example_attribute ''active'' attributeTypeBoolean [] False True
                      attributeMutabilityReadWrite attributeReturnedDefault]"
       and e = "example_attribute ''name'' attributeTypeComplex
                  [example_attribute ''familyName'' attributeTypeString [] False True
                     attributeMutabilityReadWrite attributeReturnedDefault] False False
                  attributeMutabilityReadWrite attributeReturnedDefault"
       and y = "JObject []"
       and erre = RequiredFieldMissing
       and d = "example_attribute ''emails'' attributeTypeString [] True False
                  attributeMutabilityReadWrite attributeReturnedDefault"
       and xs = "[JString ''a@example.com'']"
       and ms = "[[(''emails'', Single (JString ''a@example.com''))]]"
       and x = "JNumber ''7''"
       and errd = TypeMismatch
       and ys = "[JString ''b@example.com'']"
       and g = "example_attribute ''name'' attributeTypeComplex
                  [example_attribute ''familyName'' attributeTypeString [] False True
                     attributeMutabilityReadWrite attributeReturnedDefault] False False
                  attributeMutabilityReadWrite attributeReturnedDefault"
       and j = "JObject []"
       and errg = RequiredFieldMissing
       and h = "example_attribute ''name'' attributeTypeComplex
                  [example_attribute ''familyName'' attributeTypeString [] False True
                     attributeMutabilityReadWrite attributeReturnedDefault] False False
                  attributeMutabilityReadWrite attributeReturnedDefault"
       and z = "JObject []"]
  by (simp add: evaluate)

section \<open>The values that are stored\<close>

lemma validateSingular_stores_input:
  assumes "attribute_validateSingular folded a i mode = (m, None)"
  shows "m = [] \<or> m = [(Name a, Single i)]"
  using assms
  by (auto simp: attribute_validateSingular.simps split: if_splits option.splits)

lemma complex_stores_input:
  assumes "Type a = attributeTypeComplex" and "returnable a" and "mode = Write"
    and "attributes_validate folded (SubAttributes a) i mode = (projection, None)"
  shows "attribute_validateSingular folded a i mode = ([(Name a, Single i)], None)"
  using assms
  by (simp add: attribute_validateSingular.simps typeSwitch.simps attributeType_defs
        returnable_def)

text \<open>
  C3. A singular complex attribute \<open>name\<close> with the sub-attributes \<open>givenName\<close> and
  \<open>password\<close>, the latter with Returned never, given an object with these two keys and
  the undeclared key \<open>nickname\<close>, in write mode: validating the object against the
  sub-attributes yields the projection with \<open>givenName\<close> alone, \<open>validateSingular\<close> drops
  it, and the value stored under \<open>name\<close> in the mapping that \<open>schema.validate\<close> returns
  is the input object with all three keys, the password among them.
\<close>

theorem complex_value_is_raw_input:
  "schema_validate asciiFolding
     \<lparr>schema_ID = ''urn:example'', schema_Name = [], schema_Description = [],
      schema_Attributes =
        [example_attribute ''name'' attributeTypeComplex
           [example_attribute ''givenName'' attributeTypeString [] False True
              attributeMutabilityReadWrite attributeReturnedDefault,
            example_attribute ''password'' attributeTypeString [] False False
              attributeMutabilityReadWrite attributeReturnedNever] False False
           attributeMutabilityReadWrite attributeReturnedDefault]\<rparr>
     (Some (JObject [(''name'', JObject [(''givenName'', JString ''Al''),
                                         (''password'', JString ''s3cret''),
                                         (''nickname'', JString ''Ally'')])])) Write
    = ([(''name'', Single (JObject [(''givenName'', JString ''Al''),
                                    (''password'', JString ''s3cret''),
                                    (''nickname'', JString ''Ally'')]))], None)
   \<and> attributes_validate asciiFolding
        [example_attribute ''givenName'' attributeTypeString [] False True
           attributeMutabilityReadWrite attributeReturnedDefault,
         example_attribute ''password'' attributeTypeString [] False False
           attributeMutabilityReadWrite attributeReturnedNever]
        (JObject [(''givenName'', JString ''Al''),
                  (''password'', JString ''s3cret''),
                  (''nickname'', JString ''Ally'')]) Write
    = ([(''givenName'', Single (JString ''Al''))], None)
   \<and> reserialize [(''givenName'', Single (JString ''Al''))]
       \<noteq> JObject [(''givenName'', JString ''Al''),
                   (''password'', JString ''s3cret''),
                   (''nickname'', JString ''Ally'')]"
  by (simp add: evaluate reserialize_def)

section \<open>Validating a result again\<close>

lemma validate_loop_step:
  assumes "validate_loop folded (a # as) c mode acc = (M, None)"
  obtains hit m where "find_hit folded (Name a) c False JNull = Inr hit"
    and "attribute_validate folded a hit mode = (m, None)"
    and "validate_loop folded as c mode (if mode \<noteq> Read then merge acc m else acc) = (M, None)"
proof -
  from assms obtain hit where hit: "find_hit folded (Name a) c False JNull = Inr hit"
    by (cases "find_hit folded (Name a) c False JNull") auto
  obtain m e where r: "attribute_validate folded a hit mode = (m, e)"
    by (cases "attribute_validate folded a hit mode")
  with hit assms have e: "e = None"
    by (cases e) auto
  with hit r assms that show thesis
    by simp
qed

lemma validate_result_keys:
  assumes "attribute_validate folded a i mode = (m, None)"
  shows "m = [] \<or> (\<exists>x. m = [(Name a, x)])"
  using assms
  by (auto simp: attribute_validate.simps
           split: if_splits json.splits sum.splits dest: validateSingular_stores_input)

lemma validate_loop_map_of:
  assumes "validate_loop folded as c mode acc = (M, None)" and "k \<notin> Name ` set as"
  shows "map_of M k = map_of acc k"
  using assms
proof (induction as arbitrary: acc)
  case Nil
  then show ?case by simp
next
  case (Cons a as)
  from Cons.prems(1) obtain hit m where
    r: "attribute_validate folded a hit mode = (m, None)" and
    rest: "validate_loop folded as c mode (if mode \<noteq> Read then merge acc m else acc) = (M, None)"
    by (rule validate_loop_step)
  from Cons.prems(2) have k: "k \<noteq> Name a" "k \<notin> Name ` set as"
    by auto
  from rest k(2) have "map_of M k = map_of (if mode \<noteq> Read then merge acc m else acc) k"
    by (rule Cons.IH)
  also have "\<dots> = map_of acc k"
    using validate_result_keys [OF r] k(1)
    by (auto simp: merge_Nil merge_single update_conv')
  finally show ?case .
qed

lemma validate_loop_keys:
  assumes "validate_loop folded as c mode acc = (M, None)"
  shows "fst ` set M \<subseteq> fst ` set acc \<union> Name ` set as"
proof
  fix k
  assume k: "k \<in> fst ` set M"
  show "k \<in> fst ` set acc \<union> Name ` set as"
  proof (cases "k \<in> Name ` set as")
    case True
    then show ?thesis by simp
  next
    case False
    with assms have "map_of M k = map_of acc k"
      by (rule validate_loop_map_of)
    moreover from k have "map_of M k \<noteq> None"
      by (simp add: map_of_eq_None_iff)
    ultimately have "k \<in> fst ` set acc"
      by (simp add: map_of_eq_None_iff)
    then show ?thesis by simp
  qed
qed

lemma validate_loop_distinct:
  assumes "validate_loop folded as c mode acc = (M, None)" and "distinct (map fst acc)"
  shows "distinct (map fst M)"
  using assms
proof (induction as arbitrary: acc)
  case Nil
  then show ?case by simp
next
  case (Cons a as)
  from Cons.prems(1) obtain hit m where
    r: "attribute_validate folded a hit mode = (m, None)" and
    rest: "validate_loop folded as c mode (if mode \<noteq> Read then merge acc m else acc) = (M, None)"
    by (rule validate_loop_step)
  have "distinct (map fst (if mode \<noteq> Read then merge acc m else acc))"
    using validate_result_keys [OF r] Cons.prems(2)
    by (auto simp: merge_Nil merge_single distinct_update)
  with rest show ?case
    by (rule Cons.IH)
qed

lemma filter_key:
  assumes "distinct (map fst R)"
  shows "filter (\<lambda>(k, v). k = n) R = (case map_of R n of Some v \<Rightarrow> [(n, v)] | None \<Rightarrow> [])"
  using assms
proof (induction R)
  case Nil
  then show ?case by simp
next
  case (Cons kv R)
  obtain k v where kv: "kv = (k, v)"
    by (cases kv)
  show ?case
  proof (cases "k = n")
    case True
    with Cons.prems kv have "n \<notin> fst ` set R"
      by auto
    then have "filter (\<lambda>(k, v). k = n) R = []"
      by (force simp: filter_empty_conv)
    with True kv show ?thesis
      by simp
  next
    case False
    with Cons kv show ?thesis
      by simp
  qed
qed

lemma find_hit_exact:
  assumes "distinct (map fst R)"
    and "\<forall>k \<in> fst ` set R. EqualFold folded n k \<longrightarrow> k = n"
  shows "find_hit folded n R False JNull = Inr (case map_of R n of Some v \<Rightarrow> v | None \<Rightarrow> JNull)"
proof -
  have "filter (\<lambda>(k, v). EqualFold folded n k) R = filter (\<lambda>(k, v). k = n) R"
    using assms(2) by (intro filter_cong) (auto simp: EqualFold_refl)
  also have "\<dots> = (case map_of R n of Some v \<Rightarrow> [(n, v)] | None \<Rightarrow> [])"
    using assms(1) by (rule filter_key)
  finally show ?thesis
    by (simp add: find_hit_filter split: option.splits)
qed

lemma revalidate_attribute:
  assumes "\<not> MultiValued a" and "Required a \<longrightarrow> returnable a"
    and "attribute_validate folded a hit Write = (m, None)"
  shows "(m = [] \<or> m = [(Name a, Single hit)])
         \<and> attribute_validate folded a (if m = [] then JNull else hit) Write = (m, None)"
proof (cases "hit = JNull")
  case True
  with assms(3) show ?thesis
    by (auto simp: attribute_validate.simps split: if_splits)
next
  case False
  with assms(1,3) have single: "attribute_validateSingular folded a hit Write = (m, None)"
    by (simp add: attribute_validate.simps)
  then have switch: "typeSwitch folded a hit Write = None"
    by (auto simp: attribute_validateSingular.simps split: option.splits)
  show ?thesis
  proof (cases "returnable a")
    case True
    with single switch have "m = [(Name a, Single hit)]"
      by (auto simp: attribute_validateSingular.simps returnable_def)
    with assms(3) show ?thesis
      by simp
  next
    case False
    with single switch have m: "m = []"
      by (auto simp: attribute_validateSingular.simps returnable_def)
    from False assms(2) have "\<not> Required a"
      by blast
    with m show ?thesis
      by (simp add: attribute_validate.simps)
  qed
qed

lemma revalidate_loop:
  assumes "validate_loop folded as c Write acc = (M, None)"
    and "\<forall>a \<in> set as. \<not> MultiValued a \<and> (Required a \<longrightarrow> returnable a)"
    and "distinct (map Name as)"
    and "\<forall>a \<in> set as. Name a \<notin> fst ` set acc"
    and "\<forall>a \<in> set as. find_hit folded (Name a) R False JNull =
           Inr (case map_of M (Name a) of Some x \<Rightarrow> reserialize_value x | None \<Rightarrow> JNull)"
  shows "validate_loop folded as R Write acc = (M, None)"
  using assms
proof (induction as arbitrary: acc)
  case Nil
  then show ?case by simp
next
  case (Cons a as)
  from Cons.prems(1) obtain hit m where
    r: "attribute_validate folded a hit Write = (m, None)" and
    rest: "validate_loop folded as c Write (merge acc m) = (M, None)"
    by (rule validate_loop_step) simp
  from Cons.prems(2) have a: "\<not> MultiValued a" "Required a \<longrightarrow> returnable a"
    by simp_all
  from revalidate_attribute [OF a r] have
    m: "m = [] \<or> m = [(Name a, Single hit)]" and
    again: "attribute_validate folded a (if m = [] then JNull else hit) Write = (m, None)"
    by simp_all
  from Cons.prems(3) have fresh: "Name a \<notin> Name ` set as" and rest_distinct: "distinct (map Name as)"
    by simp_all
  from Cons.prems(4) have unset: "map_of acc (Name a) = None"
    by (simp add: map_of_eq_None_iff)
  have "map_of M (Name a) = map_of (merge acc m) (Name a)"
    using rest fresh by (rule validate_loop_map_of)
  also have "\<dots> = (if m = [] then None else Some (Single hit))"
    using m unset by (auto simp: merge_Nil merge_single update_conv')
  finally have stored: "map_of M (Name a) = (if m = [] then None else Some (Single hit))" .
  have "find_hit folded (Name a) R False JNull =
          Inr (case map_of M (Name a) of Some x \<Rightarrow> reserialize_value x | None \<Rightarrow> JNull)"
    using Cons.prems(5) by simp
  with stored have hit': "find_hit folded (Name a) R False JNull = Inr (if m = [] then JNull else hit)"
    by simp
  have merged: "fst ` set (merge acc m) \<subseteq> insert (Name a) (fst ` set acc)"
  proof (cases "m = []")
    case True
    then show ?thesis
      by (auto simp: merge_Nil)
  next
    case False
    with m have "merge acc m = AList.update (Name a) (Single hit) acc"
      by (simp add: merge_single)
    then show ?thesis
      by (simp add: dom_update)
  qed
  have keys: "\<forall>b \<in> set as. Name b \<notin> fst ` set (merge acc m)"
  proof
    fix b
    assume b: "b \<in> set as"
    with fresh have "Name b \<noteq> Name a"
      by (metis imageI)
    moreover from b Cons.prems(4) have "Name b \<notin> fst ` set acc"
      by simp
    ultimately show "Name b \<notin> fst ` set (merge acc m)"
      using merged by blast
  qed
  have "validate_loop folded as R Write (merge acc m) = (M, None)"
    using rest _ rest_distinct keys
  proof (rule Cons.IH)
    show "\<forall>a \<in> set as. \<not> MultiValued a \<and> (Required a \<longrightarrow> returnable a)"
      using Cons.prems(2) by simp
    show "\<forall>a \<in> set as. find_hit folded (Name a) R False JNull =
           Inr (case map_of M (Name a) of Some x \<Rightarrow> reserialize_value x | None \<Rightarrow> JNull)"
      using Cons.prems(5) by simp
  qed
  with hit' again show ?case
    by simp
qed

lemma unique_names_fold:
  assumes "unique_names folded as" and "a \<in> set as" and "b \<in> set as"
    and "EqualFold folded (Name a) (Name b)"
  shows "a = b"
proof -
  from assms(1) have "inj_on (\<lambda>a. folded (Name a)) (set as)"
    by (simp add: unique_names_def distinct_map)
  with assms(2-4) show ?thesis
    by (auto simp: EqualFold_def dest: inj_onD)
qed

lemma unique_names_distinct:
  assumes "unique_names folded as"
  shows "distinct (map Name as)"
proof -
  have "map (\<lambda>a. folded (Name a)) as = map folded (map Name as)"
    by simp
  with assms have "distinct (map folded (map Name as))"
    by (simp add: unique_names_def)
  then show ?thesis
    by (auto simp: distinct_map dest: inj_on_imageI2)
qed

lemma reserialize_lookup:
  assumes "validate_loop folded as c mode [] = (M, None)" and "unique_names folded as" and "a \<in> set as"
  shows "find_hit folded (Name a) (map (\<lambda>kv. (fst kv, reserialize_value (snd kv))) M) False JNull =
           Inr (case map_of M (Name a) of Some x \<Rightarrow> reserialize_value x | None \<Rightarrow> JNull)"
proof -
  let ?R = "map (\<lambda>kv. (fst kv, reserialize_value (snd kv))) M"
  have "distinct (map fst M)"
    using assms(1) by (rule validate_loop_distinct) simp
  then have distinct_R: "distinct (map fst ?R)"
    by (simp add: comp_def)
  have exact: "\<forall>k \<in> fst ` set ?R. EqualFold folded (Name a) k \<longrightarrow> k = Name a"
  proof (intro ballI impI)
    fix k
    assume k: "k \<in> fst ` set ?R" and folded: "EqualFold folded (Name a) k"
    from k have "k \<in> fst ` set M"
      by force
    with validate_loop_keys [OF assms(1)] obtain b where b: "b \<in> set as" "k = Name b"
      by auto
    with assms(2,3) folded have "a = b"
      by (auto intro: unique_names_fold)
    with b show "k = Name a"
      by simp
  qed
  have "map_of ?R (Name a) = map_option reserialize_value (map_of M (Name a))"
    by (induction M) auto
  with find_hit_exact [OF distinct_R exact] show ?thesis
    by (simp split: option.splits)
qed

text \<open>
  C2, as the code has it. Let the names of the schema's attributes be pairwise different
  under \<open>strings.EqualFold\<close> (whatever the folding tables are), and let every attribute of the schema be not
  multi-valued and, when it is Required, have Returned always or default. If validating an
  input in write mode succeeds with the mapping \<open>M\<close>, then validating \<open>M\<close>, serialised
  and decoded again, in write mode succeeds and returns \<open>M\<close>.
\<close>

theorem revalidate_result:
  assumes "unique_names folded (schema_Attributes s)"
    and "list_all (\<lambda>a. \<not> MultiValued a \<and> (Required a \<longrightarrow> returnable a))
           (schema_Attributes s)"
    and "schema_validate folded s (Some i) Write = (M, None)"
  shows "schema_validate folded s (Some (reserialize M)) Write = (M, None)"
proof -
  let ?as = "schema_Attributes s"
  from assms(3) obtain c where run: "validate_loop folded ?as c Write [] = (M, None)"
    by (cases i) (auto simp: schema_validate_def attributes_validate.simps)
  have "validate_loop folded ?as (map (\<lambda>kv. (fst kv, reserialize_value (snd kv))) M) Write []
          = (M, None)"
    using run
  proof (rule revalidate_loop)
    show "\<forall>a \<in> set ?as. \<not> MultiValued a \<and> (Required a \<longrightarrow> returnable a)"
      using assms(2) by (simp add: list_all_iff)
    show "distinct (map Name ?as)"
      using assms(1) by (rule unique_names_distinct)
    show "\<forall>a \<in> set ?as. Name a \<notin> fst ` set []"
      by simp
    show "\<forall>a \<in> set ?as.
            find_hit folded (Name a) (map (\<lambda>kv. (fst kv, reserialize_value (snd kv))) M) False JNull =
              Inr (case map_of M (Name a) of Some x \<Rightarrow> reserialize_value x | None \<Rightarrow> JNull)"
      using run assms(1) by (auto intro: reserialize_lookup)
  qed
  then show ?thesis
    by (simp add: schema_validate_def reserialize_def attributes_validate.simps)
qed

theorem revalidate_result_witness:
  "unique_names asciiFolding (schema_Attributes
     \<lparr>schema_ID = ''urn:example'', schema_Name = [], schema_Description = [],
      schema_Attributes =
        [example_attribute ''userName'' attributeTypeString [] False True
           attributeMutabilityReadWrite attributeReturnedDefault,
         example_attribute ''password'' attributeTypeString [] False False
           attributeMutabilityReadWrite attributeReturnedNever]\<rparr>)
   \<and> list_all (\<lambda>a. \<not> MultiValued a \<and> (Required a \<longrightarrow> returnable a))
        (schema_Attributes
         \<lparr>schema_ID = ''urn:example'', schema_Name = [], schema_Description = [],
          schema_Attributes =
            [example_attribute ''userName'' attributeTypeString [] False True
               attributeMutabilityReadWrite attributeReturnedDefault,
             example_attribute ''password'' attributeTypeString [] False False
               attributeMutabilityReadWrite attributeReturnedNever]\<rparr>)
   \<and> schema_validate asciiFolding
        \<lparr>schema_ID = ''urn:example'', schema_Name = [], schema_Description = [],
         schema_Attributes =
           [example_attribute ''userName'' attributeTypeString [] False True
              attributeMutabilityReadWrite attributeReturnedDefault,
            example_attribute ''password'' attributeTypeString [] False False
              attributeMutabilityReadWrite attributeReturnedNever]\<rparr>
        (Some (JObject [(''USERNAME'', JString ''alice''), (''password'', JString ''s3cret'')]))
        Write
       = ([(''userName'', Single (JString ''alice''))], None)
   \<and> schema_validate asciiFolding
        \<lparr>schema_ID = ''urn:example'', schema_Name = [], schema_Description = [],
         schema_Attributes =
           [example_attribute ''userName'' attributeTypeString [] False True
              attributeMutabilityReadWrite attributeReturnedDefault,
            example_attribute ''password'' attributeTypeString [] False False
              attributeMutabilityReadWrite attributeReturnedNever]\<rparr>
        (Some (reserialize [(''userName'', Single (JString ''alice''))])) Write
       = ([(''userName'', Single (JString ''alice''))], None)"
proof -
  let ?s = "\<lparr>schema_ID = ''urn:example'', schema_Name = [], schema_Description = [],
      schema_Attributes =
        [example_attribute ''userName'' attributeTypeString [] False True
           attributeMutabilityReadWrite attributeReturnedDefault,
         example_attribute ''password'' attributeTypeString [] False False
           attributeMutabilityReadWrite attributeReturnedNever]\<rparr>"
  have names: "unique_names asciiFolding (schema_Attributes ?s)"
    by (simp add: unique_names_def evaluate)
  have singular: "list_all (\<lambda>a. \<not> MultiValued a \<and> (Required a \<longrightarrow> returnable a))
          (schema_Attributes ?s)"
    by (simp add: evaluate)
  have run: "schema_validate asciiFolding ?s
        (Some (JObject [(''USERNAME'', JString ''alice''), (''password'', JString ''s3cret'')]))
        Write
       = ([(''userName'', Single (JString ''alice''))], None)"
    by (simp add: evaluate)
  show ?thesis
    using names singular run revalidate_result [OF names singular run] by blast
qed

text \<open>
  C2, as it is written, fails in three ways. A Required attribute whose Returned is never
  validates and is left out of the result, so the result lacks a required key when it is
  validated again. A multi-valued attribute stores one \<open>CoreAttributes\<close> per element, so
  its elements come back as objects where the attribute's type asks for strings. Two
  attributes whose names differ by letter case only both match one input key and each
  emits its own name, so the result holds two keys that match either of them.
\<close>

theorem revalidate_fails:
  "schema_validate asciiFolding
     \<lparr>schema_ID = ''urn:example'', schema_Name = [], schema_Description = [],
      schema_Attributes =
        [example_attribute ''password'' attributeTypeString [] False True
           attributeMutabilityReadWrite attributeReturnedNever]\<rparr>
     (Some (JObject [(''password'', JString ''s3cret'')])) Write = ([], None)
   \<and> schema_validate asciiFolding
     \<lparr>schema_ID = ''urn:example'', schema_Name = [], schema_Description = [],
      schema_Attributes =
        [example_attribute ''password'' attributeTypeString [] False True
           attributeMutabilityReadWrite attributeReturnedNever]\<rparr>
     (Some (reserialize [])) Write = ([], Some RequiredFieldMissing)
   \<and> schema_validate asciiFolding
     \<lparr>schema_ID = ''urn:example'', schema_Name = [], schema_Description = [],
      schema_Attributes =
        [example_attribute ''emails'' attributeTypeString [] True False
           attributeMutabilityReadWrite attributeReturnedDefault]\<rparr>
     (Some (JObject [(''emails'', JArray [JString ''a@example.com''])])) Write
     = ([(''emails'', Multi [[(''emails'', Single (JString ''a@example.com''))]])], None)
   \<and> schema_validate asciiFolding
     \<lparr>schema_ID = ''urn:example'', schema_Name = [], schema_Description = [],
      schema_Attributes =
        [example_attribute ''emails'' attributeTypeString [] True False
           attributeMutabilityReadWrite attributeReturnedDefault]\<rparr>
     (Some (reserialize [(''emails'', Multi [[(''emails'', Single (JString ''a@example.com''))]])]))
     Write
     = ([], Some TypeMismatch)
   \<and> schema_validate asciiFolding
     \<lparr>schema_ID = ''urn:example'', schema_Name = [], schema_Description = [],
      schema_Attributes =
        [example_attribute ''id'' attributeTypeString [] False False
           attributeMutabilityReadWrite attributeReturnedDefault,
         example_attribute ''ID'' attributeTypeString [] False False
           attributeMutabilityReadWrite attributeReturnedDefault]\<rparr>
     (Some (JObject [(''id'', JString ''0001'')])) Write
     = ([(''id'', Single (JString ''0001'')), (''ID'', Single (JString ''0001''))], None)
   \<and> schema_validate asciiFolding
     \<lparr>schema_ID = ''urn:example'', schema_Name = [], schema_Description = [],
      schema_Attributes =
        [example_attribute ''id'' attributeTypeString [] False False
           attributeMutabilityReadWrite attributeReturnedDefault,
         example_attribute ''ID'' attributeTypeString [] False False
           attributeMutabilityReadWrite attributeReturnedDefault]\<rparr>
     (Some (reserialize
        [(''id'', Single (JString ''0001'')), (''ID'', Single (JString ''0001''))])) Write
     = ([], Some DuplicateKey)"
  by (simp add: evaluate reserialize_def)


end
